theory Spec2Isabelle
  imports Complex_Main "HOL-Library.Word" "HOL-Library.Multiset"
begin

section \<open>Word and line segmentation of hOCRedit, and its accuracy metrics\<close>

text \<open>
  The definitions below follow \<^verbatim>\<open>internal/services/ocr/ocr.go\<close>, which holds the
  segmentation code twice: once as package \<^verbatim>\<open>ocr\<close> and once as package \<^verbatim>\<open>hocr\<close>.
  Functions of package \<^verbatim>\<open>ocr\<close> keep their names; the functions of package
  \<^verbatim>\<open>hocr\<close> that differ textually carry the prefix \<open>hocr_\<close>.

  Go's \<^verbatim>\<open>int\<close> holds pixel coordinates and sizes here. They are modelled as
  mathematical integers: sums and differences of pixel coordinates stay far inside the
  64-bit range. Go's \<^verbatim>\<open>/\<close> on \<^verbatim>\<open>int\<close> truncates towards zero, which
  \<open>quo\<close> writes out. The channel values of a colour are \<^verbatim>\<open>uint32\<close> and are
  modelled as 32-bit words.
\<close>

subsection \<open>Integers\<close>

definition quo :: "int \<Rightarrow> int \<Rightarrow> int" where
  "quo a b = sgn a * sgn b * (\<bar>a\<bar> div \<bar>b\<bar>)"

text \<open>The helpers \<^verbatim>\<open>max\<close> and \<^verbatim>\<open>abs\<close> at the end of each package.\<close>

definition max_int :: "int \<Rightarrow> int \<Rightarrow> int" where
  "max_int a b = (if a > b then a else b)"

definition abs_int :: "int \<Rightarrow> int" where
  "abs_int x = (if x < 0 then - x else x)"

subsection \<open>Data\<close>

record WordBox =
  X :: int
  Y :: int
  Width :: int
  Height :: int
  Text :: string

record LineBox =
  Words :: "WordBox list"
  LX :: int
  LY :: int
  LWidth :: int
  LHeight :: int

text \<open>
  A \<^verbatim>\<open>color.Color\<close> is anything with a method \<^verbatim>\<open>RGBA() (r, g, b, a uint32)\<close>; a
  colour is modelled by the four values that method returns.
\<close>

record color =
  red :: "32 word"
  green :: "32 word"
  blue :: "32 word"
  alpha :: "32 word"

subsection \<open>PixelClassifier\<close>

definition isTextPixel :: "color \<Rightarrow> bool" where
  "isTextPixel c =
     (let r = red c; g = green c; b = blue c;
          gray = (r + g + b) div 3
      in gray < 32768)"

subsection \<open>ComponentFilter\<close>

definition isValidWordSize :: "int \<Rightarrow> int \<Rightarrow> int \<Rightarrow> int \<Rightarrow> bool" where
  "isValidWordSize w h imgWidth imgHeight =
     (let minWidth = 8; minHeight = 10;
          maxWidth = quo imgWidth 2;
          maxHeight = quo imgHeight 5
      in w \<ge> minWidth \<and> h \<ge> minHeight \<and> w \<le> maxWidth \<and> h \<le> maxHeight)"

subsection \<open>Errors and loops\<close>

text \<open>
  A run-time panic of the Go code is a value. \<open>StackExhausted\<close> stands for a chain of
  nested calls that is deeper than the call depth the caller allows (the first argument of
  \<open>floodFillComponent\<close>).
\<close>

datatype error = StackExhausted | IndexOutOfRange | MakeSliceLenOutOfRange

text \<open>A \<^verbatim>\<open>for ... range\<close> loop whose body may fail: the state is threaded from left to right.\<close>

fun forEach :: "('a \<Rightarrow> 's \<Rightarrow> error + 's) \<Rightarrow> 'a list \<Rightarrow> 's \<Rightarrow> error + 's" where
  "forEach body [] s = Inr s"
| "forEach body (a # as) s =
     (case body a s of Inl e \<Rightarrow> Inl e | Inr s' \<Rightarrow> forEach body as s')"

text \<open>The decimal digits that \<^verbatim>\<open>%d\<close> prints for a length.\<close>

fun itoa :: "nat \<Rightarrow> string" where
  "itoa n = (if n < 10 then [''0123456789'' ! n]
             else itoa (n div 10) @ [''0123456789'' ! (n mod 10)])"

declare itoa.simps [simp del]

subsection \<open>ComponentFinder\<close>

text \<open>
  An \<^verbatim>\<open>image.Image\<close> is read through \<^verbatim>\<open>Bounds().Dx()\<close>, \<^verbatim>\<open>Bounds().Dy()\<close> and
  \<^verbatim>\<open>At(x, y)\<close> only. The mask \<^verbatim>\<open>visited [][]bool\<close> is modelled by the set of
  the coordinates \<open>(x, y)\<close> whose entry \<^verbatim>\<open>visited[y][x]\<close> is true; the code reads and
  writes an entry only after it has checked that \<open>x\<close> and \<open>y\<close> are inside the bounds.
  The four pointers \<^verbatim>\<open>minX, minY, maxX, maxY\<close> and the mask are the state that
  \<^verbatim>\<open>floodFillComponent\<close> updates in place.
\<close>

record image =
  Dx :: int
  Dy :: int
  At :: "int \<Rightarrow> int \<Rightarrow> color"

record fill =
  visited :: "(int \<times> int) set"
  minX :: int
  minY :: int
  maxX :: int
  maxY :: int

definition directions :: "(int \<times> int) list" where
  "directions = [(-1, -1), (-1, 0), (-1, 1), (0, -1), (0, 1), (1, -1), (1, 0), (1, 1)]"

text \<open>
  The part of \<^verbatim>\<open>floodFillComponent\<close> between the guard and the calls on the
  neighbours: the pixel is marked and the bounding box is updated.
\<close>

definition markPixel :: "fill \<Rightarrow> int \<Rightarrow> int \<Rightarrow> fill" where
  "markPixel st x y =
     (let st = st\<lparr>visited := insert (x, y) (visited st)\<rparr>;
          st = (if x < minX st then st\<lparr>minX := x\<rparr> else st);
          st = (if x > maxX st then st\<lparr>maxX := x\<rparr> else st);
          st = (if y < minY st then st\<lparr>minY := y\<rparr> else st);
          st = (if y > maxY st then st\<lparr>maxY := y\<rparr> else st)
      in st)"

text \<open>
  \<^verbatim>\<open>floodFillComponent\<close> calls itself for each of the eight neighbours. The first
  argument bounds the depth of nested calls: a call at depth budget \<open>0\<close> cannot be made.
\<close>

fun floodFillComponent :: "nat \<Rightarrow> image \<Rightarrow> fill \<Rightarrow> int \<Rightarrow> int \<Rightarrow> error + fill" where
  "floodFillComponent 0 img st x y = Inl StackExhausted"
| "floodFillComponent (Suc depth) img st x y =
     (if x < 0 \<or> x \<ge> Dx img \<or> y < 0 \<or> y \<ge> Dy img \<or> (x, y) \<in> visited st
         \<or> \<not> isTextPixel (At img x y)
      then Inr st
      else forEach (\<lambda>dir s. floodFillComponent depth img s (x + fst dir) (y + snd dir))
             directions (markPixel st x y))"

text \<open>The body of the inner loop of \<^verbatim>\<open>findWordComponents\<close>, at pixel \<open>(x, y)\<close>.\<close>

definition scanPixel ::
  "nat \<Rightarrow> image \<Rightarrow> int \<Rightarrow> int \<Rightarrow> (int \<times> int) set \<times> WordBox list
     \<Rightarrow> error + (int \<times> int) set \<times> WordBox list" where
  "scanPixel depth img y x vc =
     (let (vis, components) = vc in
      if (x, y) \<notin> vis \<and> isTextPixel (At img x y) then
        (case floodFillComponent depth img
                \<lparr>visited = vis, minX = x, minY = y, maxX = x, maxY = y\<rparr> x y of
           Inl e \<Rightarrow> Inl e
         | Inr st \<Rightarrow>
             let w = maxX st - minX st + 1;
                 h = maxY st - minY st + 1
             in if isValidWordSize w h (Dx img) (Dy img)
                then Inr (visited st,
                       components @ [\<lparr>X = minX st, Y = minY st, Width = w, Height = h,
                                      Text = ''word_'' @ itoa (length components + 1)\<rparr>])
                else Inr (visited st, components))
      else Inr vc)"

definition findWordComponents :: "nat \<Rightarrow> image \<Rightarrow> error + WordBox list" where
  "findWordComponents depth img =
     (let width = Dx img; height = Dy img in
      if height < 0 \<or> (height > 0 \<and> width < 0) then Inl MakeSliceLenOutOfRange
      else
        case forEach (\<lambda>y. forEach (scanPixel depth img y) [0..width - 1])
               [0..height - 1] ({}, []) of
          Inl e \<Rightarrow> Inl e
        | Inr (vis, components) \<Rightarrow> Inr components)"

subsection \<open>ComponentMerger\<close>

text \<open>The locals of \<^verbatim>\<open>shouldMergeComponents\<close>, under their names.\<close>

definition horizontalGap :: "WordBox \<Rightarrow> WordBox \<Rightarrow> int" where
  "horizontalGap a b = X b - (X a + Width a)"

definition verticalOverlap :: "WordBox \<Rightarrow> WordBox \<Rightarrow> bool" where
  "verticalOverlap a b = (\<not> (Y b + Height b < Y a \<or> Y b > Y a + Height a))"

definition maxGap :: "WordBox \<Rightarrow> WordBox \<Rightarrow> int" where
  "maxGap a b = quo (max_int (Height a) (Height b)) 3"

definition shouldMergeComponents :: "WordBox \<Rightarrow> WordBox \<Rightarrow> bool" where
  "shouldMergeComponents a b =
     (horizontalGap a b \<ge> 0 \<and> horizontalGap a b \<le> maxGap a b \<and> verticalOverlap a b)"

text \<open>Package \<^verbatim>\<open>hocr\<close> writes the overlap test without the negation.\<close>

definition hocr_verticalOverlap :: "WordBox \<Rightarrow> WordBox \<Rightarrow> bool" where
  "hocr_verticalOverlap a b = (Y b + Height b \<ge> Y a \<and> Y b \<le> Y a + Height a)"

definition hocr_shouldMergeComponents :: "WordBox \<Rightarrow> WordBox \<Rightarrow> bool" where
  "hocr_shouldMergeComponents a b =
     (horizontalGap a b \<ge> 0 \<and> horizontalGap a b \<le> maxGap a b \<and> hocr_verticalOverlap a b)"

text \<open>
  One round of the loop that grows a bounding box \<open>(minX, minY, maxX, maxY)\<close> by a box;
  \<^verbatim>\<open>mergeComponentGroup\<close> and \<^verbatim>\<open>createLineFromWords\<close> run the same loop.
\<close>

definition growBounds :: "WordBox \<Rightarrow> int \<times> int \<times> int \<times> int \<Rightarrow> int \<times> int \<times> int \<times> int" where
  "growBounds component bb =
     (let (mnX, mnY, mxX, mxY) = bb in
        (if X component < mnX then X component else mnX,
         if Y component < mnY then Y component else mnY,
         if X component + Width component > mxX then X component + Width component else mxX,
         if Y component + Height component > mxY then Y component + Height component else mxY))"

definition mergeComponentGroup :: "WordBox list \<Rightarrow> error + WordBox" where
  "mergeComponentGroup grp =
     (if length grp = 1 then Inr (hd grp)
      else case grp of
        [] \<Rightarrow> Inl IndexOutOfRange
      | g0 # rest \<Rightarrow>
          let (mnX, mnY, mxX, mxY) =
                fold growBounds rest (X g0, Y g0, X g0 + Width g0, Y g0 + Height g0)
          in Inr \<lparr>X = mnX, Y = mnY, Width = mxX - mnX, Height = mxY - mnY,
                  Text = ''merged_word_'' @ itoa (length grp)\<rparr>)"

text \<open>
  The loop of \<^verbatim>\<open>mergeNearbyComponents\<close>: the components from index \<open>i\<close> on, then
  \<^verbatim>\<open>mergedWords\<close> and \<^verbatim>\<open>currentGroup\<close>; after the last component the open group is
  merged, too.
\<close>

fun mergeLoop :: "WordBox list \<Rightarrow> WordBox list \<Rightarrow> WordBox list \<Rightarrow> error + WordBox list" where
  "mergeLoop [] mergedWords currentGroup =
     (if length currentGroup > 0 then
        (case mergeComponentGroup currentGroup of
           Inl e \<Rightarrow> Inl e
         | Inr mergedWord \<Rightarrow> Inr (mergedWords @ [mergedWord]))
      else Inr mergedWords)"
| "mergeLoop (component # rest) mergedWords currentGroup =
     (if currentGroup = [] then Inl IndexOutOfRange
      else
        let lastInGroup = last currentGroup in
        if shouldMergeComponents lastInGroup component
        then mergeLoop rest mergedWords (currentGroup @ [component])
        else
          (case mergeComponentGroup currentGroup of
             Inl e \<Rightarrow> Inl e
           | Inr mergedWord \<Rightarrow> mergeLoop rest (mergedWords @ [mergedWord]) [component]))"

definition mergeNearbyComponents :: "WordBox list \<Rightarrow> error + WordBox list" where
  "mergeNearbyComponents components =
     (if length components \<le> 1 then Inr components
      else mergeLoop (tl components) [] [hd components])"

subsection \<open>LineGrouper\<close>

text \<open>
  \<^verbatim>\<open>sort.Slice\<close> belongs to Go's library. \<^verbatim>\<open>groupWordsIntoLines\<close> takes it as the
  parameter \<open>sortSlice\<close>; \<open>wordLess\<close> is the comparison closure that the code hands to it.
\<close>

definition wordLess :: "WordBox \<Rightarrow> WordBox \<Rightarrow> bool" where
  "wordLess wi wj =
     (if abs_int (Y wi - Y wj) < quo (Height wi) 2 then X wi < X wj else Y wi < Y wj)"

text \<open>The loop of \<^verbatim>\<open>wordsOnSameLine\<close> over \<open>(avgHeight, minY, maxY)\<close>.\<close>

definition lineExtent :: "WordBox \<Rightarrow> int \<times> int \<times> int \<Rightarrow> int \<times> int \<times> int" where
  "lineExtent word acc =
     (let (avgHeight, mnY, mxY) = acc in
        (avgHeight + Height word,
         if Y word < mnY then Y word else mnY,
         if Y word + Height word > mxY then Y word + Height word else mxY))"

text \<open>The envelope \<open>(currentLineTop, currentLineBottom)\<close> of a non-empty line.\<close>

definition lineEnvelope :: "WordBox list \<Rightarrow> int \<times> int" where
  "lineEnvelope currentLineWords =
     (let w0 = hd currentLineWords;
          (avgHeight, mnY, mxY) = fold lineExtent currentLineWords (0, Y w0, Y w0 + Height w0);
          avgHeight = quo avgHeight (int (length currentLineWords));
          tolerance = quo avgHeight 3;
          currentLineBottom = mxY + tolerance;
          currentLineTop = mnY - tolerance
      in (currentLineTop, currentLineBottom))"

definition wordsOnSameLine :: "WordBox list \<Rightarrow> WordBox \<Rightarrow> bool" where
  "wordsOnSameLine currentLineWords newWord =
     (if length currentLineWords = 0 then True
      else
        let (currentLineTop, currentLineBottom) = lineEnvelope currentLineWords
        in \<not> (Y newWord + Height newWord < currentLineTop \<or> Y newWord > currentLineBottom))"

definition hocr_wordsOnSameLine :: "WordBox list \<Rightarrow> WordBox \<Rightarrow> bool" where
  "hocr_wordsOnSameLine currentLineWords newWord =
     (if length currentLineWords = 0 then True
      else
        let (currentLineTop, currentLineBottom) = lineEnvelope currentLineWords
        in Y newWord + Height newWord \<ge> currentLineTop \<and> Y newWord \<le> currentLineBottom)"

definition createLineFromWords :: "WordBox list \<Rightarrow> LineBox" where
  "createLineFromWords ws =
     (case ws of
        [] \<Rightarrow> \<lparr>Words = [], LX = 0, LY = 0, LWidth = 0, LHeight = 0\<rparr>
      | w0 # rest \<Rightarrow>
          let (mnX, mnY, mxX, mxY) =
                fold growBounds rest (X w0, Y w0, X w0 + Width w0, Y w0 + Height w0)
          in \<lparr>Words = ws, LX = mnX, LY = mnY, LWidth = mxX - mnX, LHeight = mxY - mnY\<rparr>)"

text \<open>
  The loop of \<^verbatim>\<open>groupWordsIntoLines\<close>: the words still to visit, then \<^verbatim>\<open>lines\<close> and
  \<^verbatim>\<open>currentLineWords\<close>. The two packages differ in the test \<^verbatim>\<open>wordsOnSameLine\<close>
  only, so the loop takes it as its first argument.
\<close>

fun lineLoop ::
  "(WordBox list \<Rightarrow> WordBox \<Rightarrow> bool) \<Rightarrow> WordBox list \<Rightarrow> LineBox list \<Rightarrow> WordBox list
     \<Rightarrow> LineBox list" where
  "lineLoop sameLine [] lines currentLineWords =
     (if length currentLineWords > 0 then lines @ [createLineFromWords currentLineWords]
      else lines)"
| "lineLoop sameLine (word # rest) lines currentLineWords =
     (if length currentLineWords = 0
      then lineLoop sameLine rest lines (currentLineWords @ [word])
      else if sameLine currentLineWords word
      then lineLoop sameLine rest lines (currentLineWords @ [word])
      else lineLoop sameLine rest
             (if length currentLineWords > 0
              then lines @ [createLineFromWords currentLineWords] else lines)
             [word])"

definition groupWordsIntoLines ::
  "((WordBox \<Rightarrow> WordBox \<Rightarrow> bool) \<Rightarrow> WordBox list \<Rightarrow> WordBox list) \<Rightarrow> WordBox list \<Rightarrow> LineBox list" where
  "groupWordsIntoLines sortSlice ws =
     (if length ws = 0 then [] else lineLoop wordsOnSameLine (sortSlice wordLess ws) [] [])"

definition hocr_groupWordsIntoLines ::
  "((WordBox \<Rightarrow> WordBox \<Rightarrow> bool) \<Rightarrow> WordBox list \<Rightarrow> WordBox list) \<Rightarrow> WordBox list \<Rightarrow> LineBox list" where
  "hocr_groupWordsIntoLines sortSlice ws =
     (if length ws = 0 then [] else lineLoop hocr_wordsOnSameLine (sortSlice wordLess ws) [] [])"

text \<open>
  On a slice of at most 12 elements \<^verbatim>\<open>sort.Slice\<close> runs an insertion sort: for
  \<open>i = 1, 2, ...\<close> the element at \<open>i\<close> is swapped downwards while it is less than the
  element below it. \<open>sinkDown\<close> is that inner loop on the sorted prefix, last element
  first.
\<close>

fun sinkDown :: "('a \<Rightarrow> 'a \<Rightarrow> bool) \<Rightarrow> 'a \<Rightarrow> 'a list \<Rightarrow> 'a list" where
  "sinkDown lt v [] = [v]"
| "sinkDown lt v (u # below) =
     (if lt v u then u # sinkDown lt v below else v # u # below)"

definition insertionSort :: "('a \<Rightarrow> 'a \<Rightarrow> bool) \<Rightarrow> 'a list \<Rightarrow> 'a list" where
  "insertionSort lt xs = rev (fold (sinkDown lt) xs [])"

subsection \<open>EditDistanceEngine and AccuracyScorer\<close>

text \<open>
  The tests of package \<^verbatim>\<open>metrics\<close> and the handler that calls
  \<^verbatim>\<open>metrics.CalculateAccuracyMetrics\<close> are at hand, the file that defines the two
  functions is not. The definitions of this subsection follow sections 4.6 and 4.7 of the
  specification. Ratios are real numbers; the rounding of \<^verbatim>\<open>float64\<close> is not modelled.
\<close>

text \<open>Modelled from the spec: the record AlignmentResult of section 3 (the file
  \<^verbatim>\<open>internal/metrics/metrics.go\<close> is missing).\<close>

record AlignmentResult =
  matches :: nat
  substitutions :: nat
  deletions :: nat
  insertions :: nat

text \<open>Modelled from the spec: one row of the cost matrix of section 4.6, from the second
  cell on (\<^verbatim>\<open>metrics.go\<close> is missing). A cell is the least of the cell above plus 1
  (deletion), the cell to the left plus 1 (insertion) and the cell diagonally above plus the
  substitution cost, which is 0 for equal elements and 1 otherwise.\<close>

fun fillRow :: "'a \<Rightarrow> 'a list \<Rightarrow> nat list \<Rightarrow> nat \<Rightarrow> nat list" where
  "fillRow x (y # ys) (diag # up # prev) left =
     (let v = min (min (up + 1) (left + 1)) (diag + (if x = y then 0 else 1))
      in v # fillRow x ys (up # prev) v)"
| "fillRow x ys prev left = []"

text \<open>Modelled from the spec: the row of the cost matrix for the reference element \<open>x\<close>,
  from the row above it (\<^verbatim>\<open>metrics.go\<close> is missing).\<close>

fun nextRow :: "'a \<Rightarrow> 'a list \<Rightarrow> nat list \<Rightarrow> nat list" where
  "nextRow x candidate (p # prev) = (p + 1) # fillRow x candidate (p # prev) (p + 1)"
| "nextRow x candidate [] = []"

text \<open>Modelled from the spec: the rows of the cost matrix below a given row
  (\<^verbatim>\<open>metrics.go\<close> is missing).\<close>

fun costRows :: "'a list \<Rightarrow> 'a list \<Rightarrow> nat list \<Rightarrow> nat list list" where
  "costRows [] candidate row = [row]"
| "costRows (x # xs) candidate row = row # costRows xs candidate (nextRow x candidate row)"

text \<open>Modelled from the spec: the \<open>(len(reference)+1) \<times> (len(candidate)+1)\<close> cost matrix of
  section 4.6; its first row is \<open>0, 1, ..., len(candidate)\<close> (\<^verbatim>\<open>metrics.go\<close> is
  missing).\<close>

definition costMatrix :: "'a list \<Rightarrow> 'a list \<Rightarrow> nat list list" where
  "costMatrix reference candidate = costRows reference candidate [0..<Suc (length candidate)]"

text \<open>Modelled from the spec: the backtracking of section 4.6 from cell \<open>(i, j)\<close> to the
  origin, which prefers a match to a substitution, a substitution to a deletion and a deletion
  to an insertion (\<^verbatim>\<open>metrics.go\<close> is missing).\<close>

function backtrack ::
  "nat list list \<Rightarrow> 'a list \<Rightarrow> 'a list \<Rightarrow> nat \<Rightarrow> nat \<Rightarrow> AlignmentResult \<Rightarrow> AlignmentResult" where
  "backtrack d reference candidate i j al =
     (if i = 0 \<and> j = 0 then al
      else if i > 0 \<and> j > 0 \<and> reference ! (i - 1) = candidate ! (j - 1)
              \<and> d ! i ! j = d ! (i - 1) ! (j - 1)
      then backtrack d reference candidate (i - 1) (j - 1) (al\<lparr>matches := matches al + 1\<rparr>)
      else if i > 0 \<and> j > 0 \<and> d ! i ! j = d ! (i - 1) ! (j - 1) + 1
      then backtrack d reference candidate (i - 1) (j - 1)
             (al\<lparr>substitutions := substitutions al + 1\<rparr>)
      else if i > 0 \<and> (j = 0 \<or> d ! i ! j = d ! (i - 1) ! j + 1)
      then backtrack d reference candidate (i - 1) j (al\<lparr>deletions := deletions al + 1\<rparr>)
      else backtrack d reference candidate i (j - 1) (al\<lparr>insertions := insertions al + 1\<rparr>))"
  by pat_completeness auto
termination
  by (relation "measure (\<lambda>(d, reference, candidate, i, j, al). i + j)") auto

declare backtrack.simps [simp del]

text \<open>Modelled from the spec: \<open>distance(reference, candidate)\<close> of section 4.6, the cost in
  the final cell of the matrix and the alignment counts (\<^verbatim>\<open>metrics.go\<close> is missing).\<close>

definition distance :: "'a list \<Rightarrow> 'a list \<Rightarrow> nat \<times> AlignmentResult" where
  "distance reference candidate =
     (let d = costMatrix reference candidate;
          m = length reference; n = length candidate
      in (d ! m ! n,
          backtrack d reference candidate m n
            \<lparr>matches = 0, substitutions = 0, deletions = 0, insertions = 0\<rparr>))"

text \<open>Modelled from the spec: \<^verbatim>\<open>levenshteinDistance\<close>, which the test
  \<^verbatim>\<open>TestLevenshteinDistance\<close> calls on two strings, as the cost of \<open>distance\<close> on their
  characters (\<^verbatim>\<open>metrics.go\<close> is missing).\<close>

definition levenshteinDistance :: "string \<Rightarrow> string \<Rightarrow> nat" where
  "levenshteinDistance a b = fst (distance a b)"

text \<open>Modelled from the spec: the white space that delimits words in section 4.7
  (\<^verbatim>\<open>metrics.go\<close> is missing): space, tab, line feed, vertical tab, form feed and carriage
  return.\<close>

definition isSpace :: "char \<Rightarrow> bool" where
  "isSpace c = (c \<in> {CHR '' '', CHR 0x09, CHR 0x0A, CHR 0x0B, CHR 0x0C, CHR 0x0D})"

text \<open>Modelled from the spec: the split of a text into its whitespace-delimited words, with
  the word read so far as first argument (\<^verbatim>\<open>metrics.go\<close> is missing).\<close>

fun splitWords :: "string \<Rightarrow> string \<Rightarrow> string list" where
  "splitWords cur [] = (if cur = [] then [] else [cur])"
| "splitWords cur (c # cs) =
     (if isSpace c then (if cur = [] then splitWords [] cs else cur # splitWords [] cs)
      else splitWords (cur @ [c]) cs)"

text \<open>Modelled from the spec: the tokenization of section 4.7, step (b)
  (\<^verbatim>\<open>metrics.go\<close> is missing).\<close>

definition tokenize :: "string \<Rightarrow> string list" where
  "tokenize s = splitWords [] s"

text \<open>Modelled from the spec: "clamped to [0,1]" of section 4.7 (\<^verbatim>\<open>metrics.go\<close> is
  missing).\<close>

definition clamp01 :: "real \<Rightarrow> real" where
  "clamp01 v = (if v < 0 then 0 else if v > 1 then 1 else v)"

text \<open>Modelled from the spec: the record AccuracyMetrics of sections 3 and 6, with the field
  names of \<^verbatim>\<open>models.EvalResult\<close> (\<^verbatim>\<open>metrics.go\<close> is missing).\<close>

record AccuracyMetrics =
  CharacterSimilarity :: real
  WordSimilarity :: real
  WordAccuracy :: real
  WordErrorRate :: real
  TotalWordsOriginal :: nat
  TotalWordsTranscribed :: nat
  CorrectWords :: nat
  Substitutions :: nat
  Deletions :: nat
  Insertions :: nat

text \<open>Modelled from the spec: \<^verbatim>\<open>CalculateAccuracyMetrics\<close>, steps (a), (b) and (c) of
  section 4.7 (\<^verbatim>\<open>metrics.go\<close> is missing).\<close>

definition CalculateAccuracyMetrics :: "string \<Rightarrow> string \<Rightarrow> AccuracyMetrics" where
  "CalculateAccuracyMetrics original corrected =
     (let charDistance = fst (distance original corrected);
          characterSimilarity =
            clamp01 (1 - real charDistance / real (max 1 (length original)));
          originalWords = tokenize original;
          correctedWords = tokenize corrected;
          al = snd (distance originalWords correctedWords);
          wordAccuracy = real (matches al) / real (max 1 (length originalWords));
          wordErrorRate = real (substitutions al + deletions al + insertions al)
                            / real (max 1 (length originalWords));
          wordSimilarity = clamp01 (1 - wordErrorRate)
      in \<lparr>CharacterSimilarity = characterSimilarity,
          WordSimilarity = wordSimilarity,
          WordAccuracy = wordAccuracy,
          WordErrorRate = wordErrorRate,
          TotalWordsOriginal = length originalWords,
          TotalWordsTranscribed = length correctedWords,
          CorrectWords = matches al,
          Substitutions = substitutions al,
          Deletions = deletions al,
          Insertions = insertions al\<rparr>)"

subsection \<open>Notions used in the statements\<close>

text \<open>The text pixels inside the bounds that are not marked yet.\<close>

definition pending :: "image \<Rightarrow> (int \<times> int) set \<Rightarrow> (int \<times> int) set" where
  "pending img V =
     {(x, y). 0 \<le> x \<and> x < Dx img \<and> 0 \<le> y \<and> y < Dy img \<and> isTextPixel (At img x y) \<and> (x, y) \<notin> V}"

definition allValid :: "image \<Rightarrow> WordBox list \<Rightarrow> bool" where
  "allValid img cs = (\<forall>c \<in> set cs. isValidWordSize (Width c) (Height c) (Dx img) (Dy img))"

text \<open>The right and the bottom edge of a box.\<close>

definition right :: "WordBox \<Rightarrow> int" where
  "right w = X w + Width w"

definition bottom :: "WordBox \<Rightarrow> int" where
  "bottom w = Y w + Height w"

subsection \<open>Concrete inputs\<close>

definition black :: color where
  "black = \<lparr>red = 0, green = 0, blue = 0, alpha = 0xFFFF\<rparr>"

definition white :: color where
  "white = \<lparr>red = 0xFFFF, green = 0xFFFF, blue = 0xFFFF, alpha = 0xFFFF\<rparr>"

text \<open>A single row of \<open>n\<close> text pixels.\<close>

definition rowImage :: "nat \<Rightarrow> image" where
  "rowImage n = \<lparr>Dx = int n, Dy = 1, At = (\<lambda>x y. black)\<rparr>"

definition emptyFill :: fill where
  "emptyFill = \<lparr>visited = {}, minX = 0, minY = 0, maxX = 0, maxY = 0\<rparr>"

text \<open>A page of 16 by 50 pixels with one stroke of ten text pixels, 8 wide and 10 high.\<close>

definition strokeImage :: image where
  "strokeImage = \<lparr>Dx = 16, Dy = 50,
     At = (\<lambda>x y. if (x = y \<and> 2 \<le> x \<and> x \<le> 9) \<or> (x = 9 \<and> (y = 10 \<or> y = 11))
                  then black else white)\<rparr>"

text \<open>Two boxes on one row, 90 pixels apart, and a box close to the first one.\<close>

definition boxA :: WordBox where
  "boxA = \<lparr>X = 0, Y = 0, Width = 10, Height = 12, Text = ''word_1''\<rparr>"

definition boxFar :: WordBox where
  "boxFar = \<lparr>X = 100, Y = 0, Width = 10, Height = 12, Text = ''word_2''\<rparr>"

definition boxNear :: WordBox where
  "boxNear = \<lparr>X = 12, Y = 3, Width = 10, Height = 12, Text = ''word_2''\<rparr>"

text \<open>Two words of a slanted line: the right one starts 15 pixels above the left one.\<close>

definition wordRight :: WordBox where
  "wordRight = \<lparr>X = 100, Y = 0, Width = 50, Height = 20, Text = ''word_1''\<rparr>"

definition wordLeft :: WordBox where
  "wordLeft = \<lparr>X = 0, Y = 15, Width = 50, Height = 20, Text = ''word_2''\<rparr>"

text \<open>A third word, one line further down.\<close>

definition wordBelow :: WordBox where
  "wordBelow = \<lparr>X = 10, Y = 80, Width = 40, Height = 20, Text = ''word_3''\<rparr>"

section \<open>Properties\<close>

subsection \<open>Integer helpers\<close>

lemma quo_nonneg: "0 \<le> a \<Longrightarrow> 0 < b \<Longrightarrow> quo a b = a div b"
  by (simp add: quo_def sgn_if)

lemma quo_neg_le_0: "a < 0 \<Longrightarrow> 0 < b \<Longrightarrow> quo a b \<le> 0"
proof -
  assume a: "a < 0" and b: "0 < b"
  have "0 \<le> \<bar>a\<bar> div \<bar>b\<bar>" by (simp add: div_int_pos_iff)
  with a b show ?thesis by (simp add: quo_def sgn_if)
qed

lemma max_int_max: "max_int a b = max a b"
  by (simp add: max_int_def max_def)

lemma le_div_real:
  "w \<le> a div b \<longleftrightarrow> of_int w \<le> (of_int a :: real) / of_int b"
  by (simp add: floor_divide_of_int_eq [symmetric, where ?'a = real] le_floor_iff)

lemma le_quo_iff:
  assumes "0 < b" "0 < w"
  shows "w \<le> quo a b \<longleftrightarrow> of_int w \<le> (of_int a :: real) / of_int b"
proof (cases "0 \<le> a")
  case True
  with assms show ?thesis by (simp add: quo_nonneg le_div_real)
next
  case False
  then have "a < 0" by simp
  from quo_neg_le_0 [OF this assms(1)] assms(2) have l: "\<not> w \<le> quo a b" by simp
  from \<open>a < 0\<close> assms have "(of_int a :: real) / of_int b < 0"
    by (simp add: divide_neg_pos)
  with assms(2) have "\<not> of_int w \<le> (of_int a :: real) / of_int b" by simp
  with l show ?thesis by simp
qed

subsection \<open>Loops that may fail\<close>

lemma forEach_invariant:
  assumes "forEach body as s = Inr s'" and "P s"
    and "\<And>a t t'. a \<in> set as \<Longrightarrow> P t \<Longrightarrow> body a t = Inr t' \<Longrightarrow> P t'"
  shows "P s'"
  using assms
proof (induction as arbitrary: s)
  case Nil
  then show ?case by simp
next
  case (Cons a as)
  from Cons.prems(1) obtain t where t: "body a s = Inr t" and r: "forEach body as t = Inr s'"
    by (auto split: sum.splits)
  from Cons.prems(3) [of a s t] t Cons.prems(2) have "P t" by simp
  from Cons.IH [OF r this] Cons.prems(3) show ?case by auto
qed

lemma forEach_total:
  assumes "P s"
    and "\<And>a t. a \<in> set as \<Longrightarrow> P t \<Longrightarrow> \<exists>t'. body a t = Inr t' \<and> P t'"
  shows "\<exists>s'. forEach body as s = Inr s' \<and> P s'"
  using assms
proof (induction as arbitrary: s)
  case Nil
  then show ?case by simp
next
  case (Cons a as)
  from Cons.prems(2) [of a s] Cons.prems(1)
  obtain t where t: "body a s = Inr t" and p: "P t" by auto
  from Cons.IH [OF p] Cons.prems(2) obtain s' where "forEach body as t = Inr s'" "P s'"
    by auto
  with t show ?case by simp
qed

subsection \<open>The pixel classifier\<close>

lemma gray_unat:
  assumes "unat r \<le> 65535" "unat g \<le> 65535" "unat b \<le> 65535"
  shows "unat ((r + g + b) div 3 :: 32 word) = (unat r + unat g + unat b) div 3"
proof -
  have "unat (r + g + b) = unat r + unat g + unat b"
    using assms by (simp add: unat_word_ariths)
  then show ?thesis by (simp add: unat_div)
qed

lemma isTextPixel_unat:
  assumes "unat (red c) \<le> 65535" "unat (green c) \<le> 65535" "unat (blue c) \<le> 65535"
  shows "isTextPixel c \<longleftrightarrow> (unat (red c) + unat (green c) + unat (blue c)) div 3 < 32768"
  using gray_unat [OF assms] by (simp add: isTextPixel_def Let_def word_less_nat_alt)

lemma isTextPixel_black: "isTextPixel black"
  by (simp add: isTextPixel_def black_def)

subsection \<open>The flood fill\<close>

lemma finite_pending: "finite (pending img V)"
proof -
  have "pending img V \<subseteq> {0..<Dx img} \<times> {0..<Dy img}"
    by (auto simp: pending_def)
  then show ?thesis by (rule finite_subset) simp
qed

lemma pending_mono: "V \<subseteq> V' \<Longrightarrow> pending img V' \<subseteq> pending img V"
  by (auto simp: pending_def)

lemma card_pending_mono: "V \<subseteq> V' \<Longrightarrow> card (pending img V') \<le> card (pending img V)"
  by (rule card_mono [OF finite_pending pending_mono])

lemma card_pending_insert:
  assumes "(x, y) \<in> pending img V"
  shows "card (pending img (insert (x, y) V)) < card (pending img V)"
proof -
  have "pending img (insert (x, y) V) \<subset> pending img V"
    using assms by (auto simp: pending_def)
  then show ?thesis by (rule psubset_card_mono [OF finite_pending])
qed

lemma card_pending_grid:
  assumes "0 \<le> Dx img" "0 \<le> Dy img"
  shows "card (pending img V) \<le> nat (Dx img * Dy img)"
proof -
  have "pending img V \<subseteq> {0..<Dx img} \<times> {0..<Dy img}"
    by (auto simp: pending_def)
  then have "card (pending img V) \<le> card ({0..<Dx img} \<times> {0..<Dy img})"
    by (rule card_mono [rotated]) simp
  also have "\<dots> = nat (Dx img) * nat (Dy img)" by (simp add: card_cartesian_product)
  also have "\<dots> = nat (Dx img * Dy img)" using assms by (simp add: nat_mult_distrib)
  finally show ?thesis .
qed

lemma visited_markPixel: "visited (markPixel st x y) = insert (x, y) (visited st)"
  by (simp add: markPixel_def Let_def)

text \<open>
  A call returns when its depth budget exceeds the number of text pixels that are still
  unmarked: every call that passes the guard marks one of them.
\<close>

lemma floodFill_total:
  "card (pending img (visited st)) < depth \<Longrightarrow>
     \<exists>st'. floodFillComponent depth img st x y = Inr st' \<and> visited st \<subseteq> visited st'"
proof (induction depth arbitrary: st x y)
  case 0
  then show ?case by simp
next
  case (Suc depth)
  show ?case
  proof (cases "x < 0 \<or> x \<ge> Dx img \<or> y < 0 \<or> y \<ge> Dy img \<or> (x, y) \<in> visited st
         \<or> \<not> isTextPixel (At img x y)")
    case True
    then show ?thesis by auto
  next
    case False
    then have "(x, y) \<in> pending img (visited st)" by (simp add: pending_def)
    from card_pending_insert [OF this] Suc.prems
    have small: "card (pending img (visited (markPixel st x y))) < depth"
      by (simp add: visited_markPixel)
    let ?P = "\<lambda>s::fill. visited (markPixel st x y) \<subseteq> visited s"
    have "\<exists>s'. forEach (\<lambda>dir s. floodFillComponent depth img s (x + fst dir) (y + snd dir))
             directions (markPixel st x y) = Inr s' \<and> ?P s'"
    proof (rule forEach_total)
      show "?P (markPixel st x y)" by simp
    next
      fix a :: "int \<times> int" and t :: fill
      assume "?P t"
      from card_pending_mono [OF this, of img] small
      have "card (pending img (visited t)) < depth" by simp
      from Suc.IH [OF this, of "x + fst a" "y + snd a"] \<open>?P t\<close>
      show "\<exists>t'. floodFillComponent depth img t (x + fst a) (y + snd a) = Inr t' \<and> ?P t'"
        by auto
    qed
    then obtain s' where
      "forEach (\<lambda>dir s. floodFillComponent depth img s (x + fst dir) (y + snd dir))
             directions (markPixel st x y) = Inr s'" and "?P s'" by blast
    with False show ?thesis by (auto simp: visited_markPixel)
  qed
qed

lemma floodFill_skip:
  "x < 0 \<or> x \<ge> Dx img \<or> y < 0 \<or> y \<ge> Dy img \<or> (x, y) \<in> visited st \<or> \<not> isTextPixel (At img x y)
     \<Longrightarrow> floodFillComponent (Suc d) img st x y = Inr st"
  by simp

text \<open>
  On a row of \<open>n\<close> text pixels the calls nest from pixel to pixel: started at pixel \<open>k\<close>
  with the pixels to its right unmarked, a depth budget of \<open>n - k\<close> is used up.
\<close>

lemma row_needs_depth:
  "k + m = n \<Longrightarrow> \<forall>i. int k \<le> i \<and> i < int n \<longrightarrow> (i, 0) \<notin> visited st
     \<Longrightarrow> k = 0 \<or> (int k - 1, 0) \<in> visited st
     \<Longrightarrow> floodFillComponent m (rowImage n) st (int k) 0 = Inl StackExhausted"
proof (induction m arbitrary: k st)
  case 0
  then show ?case by simp
next
  case (Suc m)
  let ?img = "rowImage n"
  let ?s = "markPixel st (int k) 0"
  from Suc.prems(1) have kn: "int k < int n" by simp
  with Suc.prems(2) have unv: "(int k, 0) \<notin> visited st" by simp
  have step: "floodFillComponent (Suc m) ?img st (int k) 0 =
      forEach (\<lambda>dir s. floodFillComponent m ?img s (int k + fst dir) (snd dir)) directions ?s"
    using kn unv by (simp add: rowImage_def isTextPixel_black)
  show ?case
  proof (cases m)
    case 0
    then show ?thesis unfolding step by (simp add: directions_def)
  next
    case (Suc m')
    have left: "int k - 1 < 0 \<or> (int k - 1, 0) \<in> visited ?s"
      using Suc.prems(3) by (auto simp: visited_markPixel)
    have c1: "floodFillComponent m ?img ?s (int k - 1) (- 1) = Inr ?s"
      unfolding Suc by (rule floodFill_skip) simp
    have c2: "floodFillComponent m ?img ?s (int k - 1) 0 = Inr ?s"
      unfolding Suc using left by (intro floodFill_skip) auto
    have c3: "floodFillComponent m ?img ?s (int k - 1) 1 = Inr ?s"
      unfolding Suc by (rule floodFill_skip) (simp add: rowImage_def)
    have c4: "floodFillComponent m ?img ?s (int k) (- 1) = Inr ?s"
      unfolding Suc by (rule floodFill_skip) simp
    have c5: "floodFillComponent m ?img ?s (int k) 1 = Inr ?s"
      unfolding Suc by (rule floodFill_skip) (simp add: rowImage_def)
    have c6: "floodFillComponent m ?img ?s (int k + 1) (- 1) = Inr ?s"
      unfolding Suc by (rule floodFill_skip) simp
    have "floodFillComponent m ?img ?s (int (Suc k)) 0 = Inl StackExhausted"
    proof (rule Suc.IH)
      show "Suc k + m = n" using Suc.prems(1) by simp
      show "\<forall>i. int (Suc k) \<le> i \<and> i < int n \<longrightarrow> (i, 0) \<notin> visited ?s"
        using Suc.prems(2) by (auto simp: visited_markPixel)
      show "Suc k = 0 \<or> (int (Suc k) - 1, 0) \<in> visited ?s"
        by (simp add: visited_markPixel)
    qed
    then have c7: "floodFillComponent m ?img ?s (int k + 1) 0 = Inl StackExhausted"
      by (simp add: add.commute)
    show ?thesis
      unfolding step directions_def
      by (simp add: c1 c2 c3 c4 c5 c6 c7 del: floodFillComponent.simps)
  qed
qed

subsection \<open>The component finder\<close>

lemma scanPixel_valid:
  assumes "scanPixel depth img y x vc = Inr vc'" and "allValid img (snd vc)"
  shows "allValid img (snd vc')"
  using assms
  by (cases vc) (auto simp: scanPixel_def Let_def allValid_def split: if_splits sum.splits)

lemma scanPixel_total:
  assumes "0 \<le> Dx img" "0 \<le> Dy img" "nat (Dx img * Dy img) < depth"
  shows "\<exists>vc'. scanPixel depth img y x vc = Inr vc'"
proof -
  obtain vis cs where vc: "vc = (vis, cs)" by (cases vc)
  let ?st = "\<lparr>visited = vis, minX = x, minY = y, maxX = x, maxY = y\<rparr>"
  from card_pending_grid [OF assms(1,2), of "visited ?st"] assms(3)
  have "card (pending img (visited ?st)) < depth" by simp
  from floodFill_total [OF this, of x y]
  obtain st' where "floodFillComponent depth img ?st x y = Inr st'" by blast
  then show ?thesis by (simp add: vc scanPixel_def Let_def)
qed

lemma findWordComponents_valid:
  assumes "findWordComponents depth img = Inr cs"
  shows "allValid img cs"
proof -
  from assms obtain vis where
    run: "forEach (\<lambda>y. forEach (scanPixel depth img y) [0..Dx img - 1]) [0..Dy img - 1] ({}, [])
           = Inr (vis, cs)"
    by (auto simp: findWordComponents_def Let_def split: if_splits sum.splits)
  let ?P = "\<lambda>vc :: (int \<times> int) set \<times> WordBox list. allValid img (snd vc)"
  have "?P (vis, cs)"
  proof (rule forEach_invariant [OF run, where P = ?P])
    show "?P ({}, [])" by (simp add: allValid_def)
  next
    fix y t t'
    assume "?P t" and row: "forEach (scanPixel depth img y) [0..Dx img - 1] t = Inr t'"
    show "?P t'"
      by (rule forEach_invariant [OF row, where P = ?P]) (use \<open>?P t\<close> scanPixel_valid in blast)+
  qed
  then show ?thesis by simp
qed

lemma findWordComponents_total:
  assumes "0 \<le> Dx img" "0 \<le> Dy img" "nat (Dx img * Dy img) < depth"
  shows "\<exists>cs. findWordComponents depth img = Inr cs"
proof -
  have row: "\<exists>t'. forEach (scanPixel depth img y) [0..Dx img - 1] t = Inr t' \<and> True" for y t
    by (rule forEach_total) (use scanPixel_total [OF assms] in auto)
  have "\<exists>t'. forEach (\<lambda>y. forEach (scanPixel depth img y) [0..Dx img - 1]) [0..Dy img - 1] ({}, [])
           = Inr t' \<and> True"
    by (rule forEach_total) (use row in auto)
  then obtain t' where
    "forEach (\<lambda>y. forEach (scanPixel depth img y) [0..Dx img - 1]) [0..Dy img - 1] ({}, [])
           = Inr t'" by blast
  with assms show ?thesis
    by (cases t') (simp add: findWordComponents_def Let_def)
qed

lemma isValidWordSize_iff:
  "isValidWordSize w h iw ih \<longleftrightarrow>
     8 \<le> w \<and> 10 \<le> h \<and> of_int w \<le> (of_int iw :: real) / 2 \<and> of_int h \<le> (of_int ih :: real) / 5"
proof (cases "8 \<le> w \<and> 10 \<le> h")
  case True
  then have "0 < w" "0 < h" by simp_all
  from le_quo_iff [of 2 w iw] le_quo_iff [of 5 h ih] this True
  show ?thesis by (simp add: isValidWordSize_def Let_def)
next
  case False
  then show ?thesis by (auto simp add: isValidWordSize_def Let_def)
qed

lemma valid_positive: "isValidWordSize w h iw ih \<Longrightarrow> 0 < w \<and> 0 < h"
  by (simp add: isValidWordSize_def Let_def)

lemma findWordComponents_stroke:
  "findWordComponents 11 strokeImage =
     Inr [\<lparr>X = 2, Y = 2, Width = 8, Height = 10, Text = ''word_1''\<rparr>]"
  by code_simp

subsection \<open>The component merger\<close>

lemma fold_growBounds:
  "fold growBounds ws (a, b, c, d) =
     (Min (insert a (X ` set ws)), Min (insert b (Y ` set ws)),
      Max (insert c (right ` set ws)), Max (insert d (bottom ` set ws)))"
proof (induction ws arbitrary: a b c d)
  case Nil
  then show ?case by simp
next
  case (Cons w ws)
  have m: "Min (insert (if x < a then x else a) S) = Min (insert a (insert x S))"
    if "finite S" for x a :: int and S
    using that by (cases "S = {}") (auto simp: min_def)
  have M: "Max (insert (if x > a then x else a) S) = Max (insert a (insert x S))"
    if "finite S" for x a :: int and S
    using that by (cases "S = {}") (auto simp: max_def)
  have step: "growBounds w (a, b, c, d) =
      (if X w < a then X w else a, if Y w < b then Y w else b,
       if right w > c then right w else c, if bottom w > d then bottom w else d)"
    by (simp add: growBounds_def right_def bottom_def)
  have "fold growBounds (w # ws) (a, b, c, d) = fold growBounds ws (growBounds w (a, b, c, d))"
    by simp
  also have "\<dots> = (Min (insert (if X w < a then X w else a) (X ` set ws)),
      Min (insert (if Y w < b then Y w else b) (Y ` set ws)),
      Max (insert (if right w > c then right w else c) (right ` set ws)),
      Max (insert (if bottom w > d then bottom w else d) (bottom ` set ws)))"
    unfolding step by (rule Cons.IH)
  also have "\<dots> = (Min (insert a (X ` set (w # ws))), Min (insert b (Y ` set (w # ws))),
      Max (insert c (right ` set (w # ws))), Max (insert d (bottom ` set (w # ws))))"
    by (simp only: m M finite_imageI finite_set list.set image_insert)
  finally show ?case .
qed

text \<open>The box of a non-empty group is the union bounding box of its members.\<close>

lemma mergeComponentGroup_union:
  assumes "grp \<noteq> []"
  shows "\<exists>u. mergeComponentGroup grp = Inr u
           \<and> X u = Min (X ` set grp) \<and> Y u = Min (Y ` set grp)
           \<and> X u + Width u = Max (right ` set grp) \<and> Y u + Height u = Max (bottom ` set grp)"
proof (cases "length grp = 1")
  case True
  then obtain g where "grp = [g]" by (cases grp) auto
  then show ?thesis by (simp add: mergeComponentGroup_def right_def bottom_def)
next
  case False
  from assms obtain g0 rest where g: "grp = g0 # rest" by (cases grp) auto
  with False show ?thesis
    by (simp add: mergeComponentGroup_def fold_growBounds right_def bottom_def)
qed

lemma mergeComponentGroup_positive:
  assumes "grp \<noteq> []" and "\<forall>c \<in> set grp. 0 < Width c \<and> 0 < Height c"
  shows "\<exists>u. mergeComponentGroup grp = Inr u \<and> 0 < Width u \<and> 0 < Height u"
proof -
  from mergeComponentGroup_union [OF assms(1)] obtain u where
    u: "mergeComponentGroup grp = Inr u" and
    x: "X u = Min (X ` set grp)" and y: "Y u = Min (Y ` set grp)" and
    r: "X u + Width u = Max (right ` set grp)" and b: "Y u + Height u = Max (bottom ` set grp)"
    by blast
  from assms(1) have ne: "X ` set grp \<noteq> {}" "Y ` set grp \<noteq> {}" by simp_all
  from Min_in [OF _ ne(1)] obtain c where c: "c \<in> set grp" "X c = X u" using x by auto
  from Min_in [OF _ ne(2)] obtain d where d: "d \<in> set grp" "Y d = Y u" using y by auto
  have "right c \<le> Max (right ` set grp)" using c(1) by simp
  with r c assms(2) have w: "0 < Width u" by (auto simp: right_def)
  have "bottom d \<le> Max (bottom ` set grp)" using d(1) by simp
  with b d assms(2) have h: "0 < Height u" by (auto simp: bottom_def)
  from u w h show ?thesis by blast
qed

lemma overlap_same: "hocr_verticalOverlap a b = verticalOverlap a b"
  by (auto simp: hocr_verticalOverlap_def verticalOverlap_def)

lemma shouldMerge_same: "hocr_shouldMergeComponents a b = shouldMergeComponents a b"
  by (simp add: hocr_shouldMergeComponents_def shouldMergeComponents_def overlap_same)

lemma verticalOverlap_intervals:
  assumes "0 \<le> Height a" "0 \<le> Height b"
  shows "verticalOverlap a b \<longleftrightarrow> {Y a .. Y a + Height a} \<inter> {Y b .. Y b + Height b} \<noteq> {}"
proof
  assume "verticalOverlap a b"
  then have "max (Y a) (Y b) \<in> {Y a .. Y a + Height a} \<inter> {Y b .. Y b + Height b}"
    using assms by (auto simp: verticalOverlap_def)
  then show "{Y a .. Y a + Height a} \<inter> {Y b .. Y b + Height b} \<noteq> {}" by blast
next
  assume "{Y a .. Y a + Height a} \<inter> {Y b .. Y b + Height b} \<noteq> {}"
  then obtain z where "z \<in> {Y a .. Y a + Height a} \<inter> {Y b .. Y b + Height b}" by blast
  then show "verticalOverlap a b" by (simp add: verticalOverlap_def)
qed

lemma maxGap_div:
  assumes "0 \<le> Height a" "0 \<le> Height b"
  shows "maxGap a b = max (Height a) (Height b) div 3"
  using assms by (auto simp: maxGap_def max_int_max quo_nonneg)

lemma mergeLoop_total:
  "currentGroup \<noteq> [] \<Longrightarrow> \<exists>out. mergeLoop cs mergedWords currentGroup = Inr out"
proof (induction cs arbitrary: mergedWords currentGroup)
  case Nil
  from mergeComponentGroup_union [OF Nil] show ?case by auto
next
  case (Cons c cs)
  from mergeComponentGroup_union [OF Cons.prems] obtain u where
    u: "mergeComponentGroup currentGroup = Inr u" by blast
  show ?case
  proof (cases "shouldMergeComponents (last currentGroup) c")
    case True
    with Cons.IH [of "currentGroup @ [c]" mergedWords] Cons.prems show ?thesis by simp
  next
    case False
    with Cons.IH [of "[c]" "mergedWords @ [u]"] Cons.prems u show ?thesis by simp
  qed
qed

subsection \<open>The line grouper\<close>

lemma sameLine_same: "hocr_wordsOnSameLine ws w = wordsOnSameLine ws w"
  by (auto simp: hocr_wordsOnSameLine_def wordsOnSameLine_def split: prod.splits)

lemma Words_createLine: "Words (createLineFromWords ws) = ws"
  by (cases ws) (simp_all add: createLineFromWords_def split: prod.splits)

text \<open>The lines cut the sequence that the loop walks into consecutive pieces.\<close>

lemma lineLoop_concat:
  "concat (map Words (lineLoop sameLine ws lines cur)) = concat (map Words lines) @ cur @ ws"
  by (induction ws arbitrary: lines cur) (simp_all add: Words_createLine)

lemma mset_sinkDown: "mset (sinkDown lt v xs) = add_mset v (mset xs)"
  by (induction xs) simp_all

lemma mset_fold_sinkDown: "mset (fold (sinkDown lt) xs acc) = mset xs + mset acc"
  by (induction xs arbitrary: acc) (simp_all add: mset_sinkDown)

lemma mset_insertionSort: "mset (insertionSort lt xs) = mset xs"
  by (simp add: insertionSort_def mset_fold_sinkDown)

subsection \<open>The edit distance\<close>

lemma costRows_empty_candidate: "costRows xs [] [k] ! length xs = [k + length xs]"
  by (induction xs arbitrary: k) simp_all

lemma distance_empty_candidate: "fst (distance s []) = length s"
  by (simp add: distance_def Let_def costMatrix_def costRows_empty_candidate)

lemma distance_empty_reference: "fst (distance [] s) = length s"
proof -
  have "[0..<Suc (length s)] ! length s = 0 + length s" by (rule nth_upt) simp
  then show ?thesis by (simp add: distance_def Let_def costMatrix_def del: upt_Suc)
qed

lemma backtrack_empty_reference:
  "backtrack d [] candidate 0 j al = al\<lparr>insertions := insertions al + j\<rparr>"
proof (induction j arbitrary: al)
  case 0
  show ?case by (simp add: backtrack.simps [of d "[]" candidate 0 0])
next
  case (Suc j)
  show ?case by (simp add: backtrack.simps [of d "[]" candidate 0 "Suc j"] Suc.IH)
qed

lemma alignment_empty_reference:
  "snd (distance [] candidate) =
     \<lparr>matches = 0, substitutions = 0, deletions = 0, insertions = length candidate\<rparr>"
  by (simp add: distance_def Let_def backtrack_empty_reference)

lemma clamp01_eq: "clamp01 v = max 0 (min 1 v)"
  by (simp add: clamp01_def max_def min_def)

section \<open>The claims\<close>

subsection \<open>PixelClassifier\<close>

lemma avg_exact: "s div 3 < 32768 \<longleftrightarrow> real s / 3 < 65536 / 2" for s :: nat
proof -
  have "s div 3 < 32768 \<longleftrightarrow> s < 98304" by (simp add: div_less_iff_less_mult)
  also have "\<dots> \<longleftrightarrow> real s < real 98304" by (simp only: of_nat_less_iff)
  also have "\<dots> \<longleftrightarrow> real s / 3 < 65536 / 2" by simp
  finally show ?thesis .
qed

lemma avg_truncated: "k < 32768 \<longleftrightarrow> real k < 65535 / 2" for k :: nat
proof -
  have "(real k < 65535 / 2) \<longleftrightarrow> (real (2 * k) < real 65535)" by (simp add: mult.commute)
  also have "\<dots> \<longleftrightarrow> 2 * k < 65535" by (simp only: of_nat_less_iff)
  also have "\<dots> \<longleftrightarrow> k < 32768" by linarith
  finally show ?thesis by simp
qed

lemma isTextPixel_mean:
  assumes "unat (red c) \<le> 65535" "unat (green c) \<le> 65535" "unat (blue c) \<le> 65535"
  shows "(isTextPixel c \<longleftrightarrow> real (unat (red c) + unat (green c) + unat (blue c)) / 3 < 65536 / 2)
      \<and> (isTextPixel c \<longleftrightarrow>
           real ((unat (red c) + unat (green c) + unat (blue c)) div 3) < 65535 / 2)"
  unfolding isTextPixel_unat [OF assms]
  using avg_exact [of "unat (red c) + unat (green c) + unat (blue c)"]
    avg_truncated [of "(unat (red c) + unat (green c) + unat (blue c)) div 3"]
  by blast

text \<open>
  Claim C8. A colour whose channel values are at most \<open>0xFFFF\<close>, as \<^verbatim>\<open>RGBA()\<close>
  returns them, is a text pixel exactly when the average of its red, green and blue values is
  below \<open>32768\<close>, half of the channel range of \<open>65536\<close> values; with the average
  truncated to an integer, as the code computes it, this is the same as being below half of
  the largest channel value \<open>65535\<close>. The alpha value that \<^verbatim>\<open>RGBA()\<close> returns has no
  influence: two colours that differ in alpha only are classified alike.
\<close>

theorem isTextPixel_average:
  "(unat (red c) \<le> 65535 \<and> unat (green c) \<le> 65535 \<and> unat (blue c) \<le> 65535 \<longrightarrow>
      (isTextPixel c \<longleftrightarrow> real (unat (red c) + unat (green c) + unat (blue c)) / 3 < 65536 / 2)
      \<and> (isTextPixel c \<longleftrightarrow>
           real ((unat (red c) + unat (green c) + unat (blue c)) div 3) < 65535 / 2))
   \<and> isTextPixel (c\<lparr>alpha := a\<rparr>) = isTextPixel c"
proof
  show "unat (red c) \<le> 65535 \<and> unat (green c) \<le> 65535 \<and> unat (blue c) \<le> 65535 \<longrightarrow>
      (isTextPixel c \<longleftrightarrow> real (unat (red c) + unat (green c) + unat (blue c)) / 3 < 65536 / 2)
      \<and> (isTextPixel c \<longleftrightarrow>
           real ((unat (red c) + unat (green c) + unat (blue c)) div 3) < 65535 / 2)"
    using isTextPixel_mean [of c] by blast
next
  show "isTextPixel (c\<lparr>alpha := a\<rparr>) = isTextPixel c" by (simp add: isTextPixel_def)
qed

text \<open>White is background, black is text, and the threshold lies between the sums 98303 and 98304.\<close>

theorem isTextPixel_average_witness:
  "unat (red white) \<le> 65535 \<and> unat (green white) \<le> 65535 \<and> unat (blue white) \<le> 65535
   \<and> \<not> isTextPixel white \<and> isTextPixel black
   \<and> isTextPixel \<lparr>red = 32767, green = 32768, blue = 32768, alpha = 0\<rparr>
   \<and> \<not> isTextPixel \<lparr>red = 32768, green = 32768, blue = 32768, alpha = 0xFFFF\<rparr>"
  using isTextPixel_average [of white 0] isTextPixel_average [of black 0]
    isTextPixel_average [of "\<lparr>red = 32767, green = 32768, blue = 32768, alpha = 0\<rparr>" 0]
    isTextPixel_average [of "\<lparr>red = 32768, green = 32768, blue = 32768, alpha = 0xFFFF\<rparr>" 0]
  by (simp add: white_def black_def)

subsection \<open>ComponentFilter\<close>

text \<open>
  Claim C7. \<^verbatim>\<open>isValidWordSize\<close> accepts a width \<open>w\<close> and a height \<open>h\<close> in an image of
  \<open>image_width\<close> by \<open>image_height\<close> pixels exactly when \<open>w \<ge> 8\<close>, \<open>h \<ge> 10\<close>,
  \<open>w \<le> image_width / 2\<close> and \<open>h \<le> image_height / 5\<close>; the truncating division of the
  code and the exact quotient give the same test. Every other component is dropped: each box
  that \<^verbatim>\<open>findWordComponents\<close> returns is inside these bounds.
\<close>

theorem isValidWordSize_bounds:
  "(isValidWordSize w h image_width image_height \<longleftrightarrow>
      w \<ge> 8 \<and> h \<ge> 10 \<and> of_int w \<le> (of_int image_width :: real) / 2
      \<and> of_int h \<le> (of_int image_height :: real) / 5)
   \<and> (findWordComponents depth img = Inr cs \<longrightarrow>
        (\<forall>c \<in> set cs. Width c \<ge> 8 \<and> Height c \<ge> 10
           \<and> of_int (Width c) \<le> (of_int (Dx img) :: real) / 2
           \<and> of_int (Height c) \<le> (of_int (Dy img) :: real) / 5))"
proof
  show "isValidWordSize w h image_width image_height \<longleftrightarrow>
      w \<ge> 8 \<and> h \<ge> 10 \<and> of_int w \<le> (of_int image_width :: real) / 2
      \<and> of_int h \<le> (of_int image_height :: real) / 5"
    by (rule isValidWordSize_iff)
next
  show "findWordComponents depth img = Inr cs \<longrightarrow>
        (\<forall>c \<in> set cs. Width c \<ge> 8 \<and> Height c \<ge> 10
           \<and> of_int (Width c) \<le> (of_int (Dx img) :: real) / 2
           \<and> of_int (Height c) \<le> (of_int (Dy img) :: real) / 5)"
  proof
    assume "findWordComponents depth img = Inr cs"
    from findWordComponents_valid [OF this]
    show "\<forall>c \<in> set cs. Width c \<ge> 8 \<and> Height c \<ge> 10
           \<and> of_int (Width c) \<le> (of_int (Dx img) :: real) / 2
           \<and> of_int (Height c) \<le> (of_int (Dy img) :: real) / 5"
      by (simp add: allValid_def isValidWordSize_iff)
  qed
qed

text \<open>
  On the page with one stroke the component of 8 by 10 pixels is kept; in an image of 16 by
  50 pixels a size one pixel beyond any of the four bounds is refused.
\<close>

theorem isValidWordSize_bounds_witness:
  "findWordComponents 11 strokeImage = Inr [\<lparr>X = 2, Y = 2, Width = 8, Height = 10, Text = ''word_1''\<rparr>]
   \<and> isValidWordSize 8 10 16 50 \<and> \<not> isValidWordSize 9 10 16 50 \<and> \<not> isValidWordSize 8 11 16 50
   \<and> \<not> isValidWordSize 7 10 16 50 \<and> \<not> isValidWordSize 8 9 16 50"
  using isValidWordSize_bounds [of 8 10 16 50 11 strokeImage
          "[\<lparr>X = 2, Y = 2, Width = 8, Height = 10, Text = ''word_1''\<rparr>]"]
    isValidWordSize_bounds [of 9 10 16 50 11 strokeImage "[]"]
    isValidWordSize_bounds [of 8 11 16 50 11 strokeImage "[]"]
    isValidWordSize_bounds [of 7 10 16 50 11 strokeImage "[]"]
    isValidWordSize_bounds [of 8 9 16 50 11 strokeImage "[]"]
    findWordComponents_stroke
  by simp

subsection \<open>The two copies of the overlap tests\<close>

text \<open>
  Claim C2 states that there is a pair of word boxes on which the tests of package
  \<^verbatim>\<open>ocr\<close> and of package \<^verbatim>\<open>hocr\<close> differ. There is none, neither for
  \<^verbatim>\<open>shouldMergeComponents\<close> nor for \<^verbatim>\<open>wordsOnSameLine\<close>.
\<close>

theorem overlap_tests_never_differ:
  "\<not> (\<exists>a b. shouldMergeComponents a b \<noteq> hocr_shouldMergeComponents a b)
   \<and> \<not> (\<exists>ws w. wordsOnSameLine ws w \<noteq> hocr_wordsOnSameLine ws w)"
  by (simp add: shouldMerge_same sameLine_same)

text \<open>
  Claim C2, amended. The two packages write the same vertical-overlap test in two equivalent
  forms, a negated disjunction of strict comparisons in package \<^verbatim>\<open>ocr\<close> and a
  conjunction of inclusive comparisons in package \<^verbatim>\<open>hocr\<close>: on all boxes
  \<^verbatim>\<open>shouldMergeComponents\<close> gives the same result in both packages, on all lines and
  words \<^verbatim>\<open>wordsOnSameLine\<close> gives the same result in both packages, and both overlap
  tests are inclusive (spans that only touch do overlap).
\<close>

theorem ocr_hocr_tests_agree:
  "shouldMergeComponents a b = hocr_shouldMergeComponents a b
   \<and> wordsOnSameLine ws w = hocr_wordsOnSameLine ws w
   \<and> verticalOverlap a b = (Y a \<le> Y b + Height b \<and> Y b \<le> Y a + Height a)
   \<and> hocr_verticalOverlap a b = (Y a \<le> Y b + Height b \<and> Y b \<le> Y a + Height a)"
  by (auto simp add: shouldMerge_same sameLine_same verticalOverlap_def hocr_verticalOverlap_def)

subsection \<open>ComponentMerger\<close>

text \<open>
  Claim C1 states that the open group is closed only when the candidate fails both
  conditions. The box \<open>boxFar\<close> overlaps \<open>boxA\<close> vertically and fails the gap condition
  alone; the group of \<open>boxA\<close> is closed all the same and a new group is started, so that
  two words come out.
\<close>

theorem mergeNearbyComponents_closes_on_gap_alone:
  "verticalOverlap boxA boxFar
   \<and> \<not> (horizontalGap boxA boxFar \<ge> 0 \<and> horizontalGap boxA boxFar \<le> maxGap boxA boxFar)
   \<and> mergeNearbyComponents [boxA, boxFar] = Inr [boxA, boxFar]"
  by (simp add: mergeNearbyComponents_def boxA_def boxFar_def shouldMergeComponents_def
        horizontalGap_def maxGap_def verticalOverlap_def mergeComponentGroup_def max_int_def quo_def)

text \<open>
  Claim C1, amended. In the loop of \<^verbatim>\<open>mergeNearbyComponents\<close>, with an open group that is
  not empty, the candidate \<open>c\<close> joins the open group exactly when its horizontal gap to the
  last member of the group lies in \<open>[0, maxGap]\<close> and the vertical spans of the two boxes
  overlap; when it fails at least one of the two conditions, the open group is closed, that
  is replaced by the union bounding box of its members, and \<open>c\<close> starts a new group. For
  boxes of non-negative height \<open>maxGap\<close> is \<open>max(heightA, heightB) / 3\<close> and the overlap
  test says that the closed intervals of the two vertical spans meet. The loop starts with
  the first component as the open group and never fails.
\<close>

theorem mergeLoop_joins_or_closes:
  assumes "currentGroup \<noteq> []"
  shows "(shouldMergeComponents (last currentGroup) c \<longleftrightarrow>
            horizontalGap (last currentGroup) c \<in> {0 .. maxGap (last currentGroup) c}
            \<and> verticalOverlap (last currentGroup) c)
    \<and> (shouldMergeComponents (last currentGroup) c \<longrightarrow>
          mergeLoop (c # rest) mergedWords currentGroup
            = mergeLoop rest mergedWords (currentGroup @ [c]))
    \<and> (\<not> shouldMergeComponents (last currentGroup) c \<longrightarrow>
          (\<exists>u. mergeComponentGroup currentGroup = Inr u
             \<and> X u = Min (X ` set currentGroup) \<and> Y u = Min (Y ` set currentGroup)
             \<and> X u + Width u = Max (right ` set currentGroup)
             \<and> Y u + Height u = Max (bottom ` set currentGroup)
             \<and> mergeLoop (c # rest) mergedWords currentGroup
                 = mergeLoop rest (mergedWords @ [u]) [c]))
    \<and> (0 \<le> Height (last currentGroup) \<and> 0 \<le> Height c \<longrightarrow>
          maxGap (last currentGroup) c = max (Height (last currentGroup)) (Height c) div 3
          \<and> (verticalOverlap (last currentGroup) c \<longleftrightarrow>
               {Y (last currentGroup) .. Y (last currentGroup) + Height (last currentGroup)}
                 \<inter> {Y c .. Y c + Height c} \<noteq> {}))
    \<and> mergeNearbyComponents (c0 # c # rest) = mergeLoop (c # rest) [] [c0]
    \<and> (\<exists>out. mergeLoop (c # rest) mergedWords currentGroup = Inr out)"
proof -
  let ?a = "last currentGroup"
  have 1: "shouldMergeComponents ?a c \<longleftrightarrow>
            horizontalGap ?a c \<in> {0 .. maxGap ?a c} \<and> verticalOverlap ?a c"
    by (auto simp: shouldMergeComponents_def)
  have 2: "shouldMergeComponents ?a c \<longrightarrow>
          mergeLoop (c # rest) mergedWords currentGroup
            = mergeLoop rest mergedWords (currentGroup @ [c])"
    using assms by simp
  from mergeComponentGroup_union [OF assms] obtain u where
    u: "mergeComponentGroup currentGroup = Inr u"
      "X u = Min (X ` set currentGroup)" "Y u = Min (Y ` set currentGroup)"
      "X u + Width u = Max (right ` set currentGroup)"
      "Y u + Height u = Max (bottom ` set currentGroup)" by blast
  have "\<not> shouldMergeComponents ?a c \<longrightarrow>
      mergeLoop (c # rest) mergedWords currentGroup = mergeLoop rest (mergedWords @ [u]) [c]"
    using assms u(1) by simp
  with u have 3: "\<not> shouldMergeComponents ?a c \<longrightarrow>
          (\<exists>u. mergeComponentGroup currentGroup = Inr u
             \<and> X u = Min (X ` set currentGroup) \<and> Y u = Min (Y ` set currentGroup)
             \<and> X u + Width u = Max (right ` set currentGroup)
             \<and> Y u + Height u = Max (bottom ` set currentGroup)
             \<and> mergeLoop (c # rest) mergedWords currentGroup
                 = mergeLoop rest (mergedWords @ [u]) [c])" by blast
  have 4: "0 \<le> Height ?a \<and> 0 \<le> Height c \<longrightarrow>
          maxGap ?a c = max (Height ?a) (Height c) div 3
          \<and> (verticalOverlap ?a c \<longleftrightarrow>
               {Y ?a .. Y ?a + Height ?a} \<inter> {Y c .. Y c + Height c} \<noteq> {})"
    using maxGap_div [of ?a c] verticalOverlap_intervals [of ?a c] by blast
  have 5: "mergeNearbyComponents (c0 # c # rest) = mergeLoop (c # rest) [] [c0]"
    by (simp add: mergeNearbyComponents_def)
  have 6: "\<exists>out. mergeLoop (c # rest) mergedWords currentGroup = Inr out"
    by (rule mergeLoop_total [OF assms])
  from 1 2 3 4 5 6 show ?thesis by blast
qed

text \<open>
  With \<open>boxA\<close> as the open group, \<open>boxNear\<close> joins and the two are merged into their
  union; \<open>boxFar\<close> does not join, and both boxes come out.
\<close>

theorem mergeLoop_joins_or_closes_witness:
  "[boxA] \<noteq> [] \<and> shouldMergeComponents boxA boxNear
   \<and> mergeLoop [boxNear] [] [boxA]
       = Inr [\<lparr>X = 0, Y = 0, Width = 22, Height = 15, Text = ''merged_word_2''\<rparr>]
   \<and> \<not> shouldMergeComponents boxA boxFar
   \<and> mergeLoop [boxFar] [] [boxA] = Inr [boxA, boxFar]"
proof -
  have ne: "[boxA] \<noteq> []" by simp
  have j: "horizontalGap boxA boxNear \<in> {0 .. maxGap boxA boxNear} \<and> verticalOverlap boxA boxNear"
    by (simp add: boxA_def boxNear_def horizontalGap_def maxGap_def verticalOverlap_def
          max_int_def quo_def)
  have f: "\<not> horizontalGap boxA boxFar \<in> {0 .. maxGap boxA boxFar}"
    by (simp add: boxA_def boxFar_def horizontalGap_def maxGap_def max_int_def quo_def)
  have m2: "mergeComponentGroup [boxA, boxNear]
      = Inr \<lparr>X = 0, Y = 0, Width = 22, Height = 15, Text = ''merged_word_2''\<rparr>"
    by (simp add: mergeComponentGroup_def growBounds_def boxA_def boxNear_def itoa.simps)
  have m1: "mergeComponentGroup [b] = Inr b" for b
    by (simp add: mergeComponentGroup_def)
  from mergeLoop_joins_or_closes [OF ne, of boxNear "[]" "[]" boxA] j
  have a: "shouldMergeComponents boxA boxNear"
    and b: "mergeLoop [boxNear] [] [boxA] = mergeLoop [] [] [boxA, boxNear]"
    by simp_all
  from mergeLoop_joins_or_closes [OF ne, of boxFar "[]" "[]" boxA] f
  have c: "\<not> shouldMergeComponents boxA boxFar"
    and d: "mergeLoop [boxFar] [] [boxA] = mergeLoop [] [boxA] [boxFar]"
    by (auto simp: m1)
  from ne a b c d show ?thesis by (simp add: m1 m2)
qed

subsection \<open>ComponentFinder\<close>

text \<open>
  Claim C3 states that the flood fill keeps its pending coordinates in a work-list, so that
  it does not need a call stack as deep as the component is large. The code calls itself
  for each neighbour: on a row of three text pixels a depth budget of three nested calls is
  exhausted, and four are needed.
\<close>

theorem floodFill_row_of_three_needs_depth_four:
  "floodFillComponent 3 (rowImage 3) emptyFill 0 0 = Inl StackExhausted
   \<and> floodFillComponent 4 (rowImage 3) emptyFill 0 0
       = Inr \<lparr>visited = {(0, 0), (1, 0), (2, 0)}, minX = 0, minY = 0, maxX = 2, maxY = 0\<rparr>"
  by (simp add: eval_nat_numeral rowImage_def emptyFill_def isTextPixel_black directions_def
        markPixel_def Let_def insert_commute)

text \<open>
  Claim C3, amended. \<^verbatim>\<open>floodFillComponent\<close> is written by direct recursion on the eight
  neighbours, without a work-list. On every finite pixel grid it returns, and marks only
  more pixels, as soon as the admitted depth of nested calls exceeds the number of text
  pixels that are not marked yet. That depth grows with the component: on a row of \<open>n\<close>
  text pixels a depth of \<open>n\<close> is exhausted and a depth of \<open>n + 1\<close> suffices.
\<close>

theorem floodFillComponent_recursion_depth:
  "(card (pending img (visited st)) < depth \<longrightarrow>
      (\<exists>st'. floodFillComponent depth img st x y = Inr st' \<and> visited st \<subseteq> visited st'))
   \<and> floodFillComponent n (rowImage n) emptyFill 0 0 = Inl StackExhausted
   \<and> (\<exists>st'. floodFillComponent (Suc n) (rowImage n) emptyFill 0 0 = Inr st')"
proof -
  have 1: "card (pending img (visited st)) < depth \<longrightarrow>
      (\<exists>st'. floodFillComponent depth img st x y = Inr st' \<and> visited st \<subseteq> visited st')"
    using floodFill_total [of img st depth x y] by blast
  have 2: "floodFillComponent n (rowImage n) emptyFill 0 0 = Inl StackExhausted"
    using row_needs_depth [of 0 n n emptyFill] by (simp add: emptyFill_def)
  have "card (pending (rowImage n) (visited emptyFill)) \<le> nat (Dx (rowImage n) * Dy (rowImage n))"
    by (rule card_pending_grid) (simp_all add: rowImage_def)
  then have "card (pending (rowImage n) (visited emptyFill)) < Suc n"
    by (simp add: rowImage_def)
  from floodFill_total [OF this, of 0 0]
  have 3: "\<exists>st'. floodFillComponent (Suc n) (rowImage n) emptyFill 0 0 = Inr st'" by blast
  from 1 2 3 show ?thesis by blast
qed

text \<open>
  The page with one stroke has fewer than 1001 pixels, so a depth of 1001 lets the fill
  return; the row of five pixels exhausts a depth of five.
\<close>

theorem floodFillComponent_recursion_depth_witness:
  "card (pending strokeImage (visited emptyFill)) < 1001
   \<and> visited emptyFill \<subseteq> visited (projr (floodFillComponent 1001 strokeImage emptyFill 2 2))
   \<and> \<not> isl (floodFillComponent 1001 strokeImage emptyFill 2 2)
   \<and> floodFillComponent 5 (rowImage 5) emptyFill 0 0 = Inl StackExhausted"
proof -
  have "card (pending strokeImage (visited emptyFill)) \<le> nat (Dx strokeImage * Dy strokeImage)"
    by (rule card_pending_grid) (simp_all add: strokeImage_def)
  then have c: "card (pending strokeImage (visited emptyFill)) < 1001"
    by (simp add: strokeImage_def)
  from floodFillComponent_recursion_depth [of strokeImage emptyFill 1001 2 2 5] c
  show ?thesis by auto
qed

text \<open>
  Claim C9. Every box that \<^verbatim>\<open>findWordComponents\<close> returns has a positive width and a
  positive height, and it does return when the admitted call depth exceeds the number of
  pixels; \<^verbatim>\<open>mergeComponentGroup\<close> turns every non-empty group of boxes of positive width and
  height into a box of positive width and height.
\<close>

theorem WordBox_positive:
  "(findWordComponents depth img = Inr cs \<longrightarrow> (\<forall>c \<in> set cs. Width c > 0 \<and> Height c > 0))
   \<and> (0 \<le> Dx img \<and> 0 \<le> Dy img \<and> nat (Dx img * Dy img) < depth \<longrightarrow>
        (\<exists>cs'. findWordComponents depth img = Inr cs'))
   \<and> (grp \<noteq> [] \<and> (\<forall>c \<in> set grp. Width c > 0 \<and> Height c > 0) \<longrightarrow>
        (\<exists>u. mergeComponentGroup grp = Inr u \<and> Width u > 0 \<and> Height u > 0))"
proof -
  have 1: "findWordComponents depth img = Inr cs \<longrightarrow> (\<forall>c \<in> set cs. Width c > 0 \<and> Height c > 0)"
  proof
    assume "findWordComponents depth img = Inr cs"
    from findWordComponents_valid [OF this] valid_positive
    show "\<forall>c \<in> set cs. Width c > 0 \<and> Height c > 0"
      unfolding allValid_def by blast
  qed
  have 2: "0 \<le> Dx img \<and> 0 \<le> Dy img \<and> nat (Dx img * Dy img) < depth \<longrightarrow>
        (\<exists>cs'. findWordComponents depth img = Inr cs')"
    using findWordComponents_total [of img depth] by blast
  have 3: "grp \<noteq> [] \<and> (\<forall>c \<in> set grp. Width c > 0 \<and> Height c > 0) \<longrightarrow>
        (\<exists>u. mergeComponentGroup grp = Inr u \<and> Width u > 0 \<and> Height u > 0)"
    using mergeComponentGroup_positive [of grp] by blast
  from 1 2 3 show ?thesis by blast
qed

text \<open>
  The stroke of the page becomes a box of 8 by 10 pixels, and the group of \<open>boxA\<close> and
  \<open>boxNear\<close> a box of 22 by 15 pixels.
\<close>

theorem WordBox_positive_witness:
  "findWordComponents 11 strokeImage
     = Inr [\<lparr>X = 2, Y = 2, Width = 8, Height = 10, Text = ''word_1''\<rparr>]
   \<and> [boxA, boxNear] \<noteq> []
   \<and> Width boxA > 0 \<and> Height boxA > 0 \<and> Width boxNear > 0 \<and> Height boxNear > 0
   \<and> mergeComponentGroup [boxA, boxNear]
       = Inr \<lparr>X = 0, Y = 0, Width = 22, Height = 15, Text = ''merged_word_2''\<rparr>
   \<and> Width (projr (mergeComponentGroup [boxA, boxNear])) > 0
   \<and> Height (projr (mergeComponentGroup [boxA, boxNear])) > 0
   \<and> \<not> isl (findWordComponents 801 strokeImage)"
proof -
  have d: "0 \<le> Dx strokeImage \<and> 0 \<le> Dy strokeImage \<and> nat (Dx strokeImage * Dy strokeImage) < 801"
    by (simp add: strokeImage_def)
  have p: "Width boxA > 0 \<and> Height boxA > 0 \<and> Width boxNear > 0 \<and> Height boxNear > 0"
    by (simp add: boxA_def boxNear_def)
  have m2: "mergeComponentGroup [boxA, boxNear]
      = Inr \<lparr>X = 0, Y = 0, Width = 22, Height = 15, Text = ''merged_word_2''\<rparr>"
    by (simp add: mergeComponentGroup_def growBounds_def boxA_def boxNear_def itoa.simps)
  from WordBox_positive [of 11 strokeImage
      "[\<lparr>X = 2, Y = 2, Width = 8, Height = 10, Text = ''word_1''\<rparr>]" "[boxA, boxNear]"]
    WordBox_positive [of 801 strokeImage "[]" "[boxA, boxNear]"]
    findWordComponents_stroke d p m2
  show ?thesis by auto
qed

subsection \<open>LineGrouper\<close>

text \<open>
  Claim C4 states that the words of every line have non-decreasing \<open>X\<close>. For the two words
  of a slanted line, the right one \<open>15\<close> pixels above the left one, the comparison
  \<open>wordLess\<close> orders by \<open>Y\<close> (the difference of \<open>15\<close> is not below half the height of
  \<open>20\<close>), whereas \<^verbatim>\<open>wordsOnSameLine\<close> puts the two on one line: the line holds the word at
  \<open>X = 100\<close> before the word at \<open>X = 0\<close>, in either package and whatever the order of
  the input.
\<close>

theorem groupWordsIntoLines_line_not_left_to_right:
  "groupWordsIntoLines insertionSort [wordRight, wordLeft]
     = [\<lparr>Words = [wordRight, wordLeft], LX = 0, LY = 0, LWidth = 150, LHeight = 35\<rparr>]
   \<and> X wordRight = 100 \<and> X wordLeft = 0
   \<and> groupWordsIntoLines insertionSort [wordLeft, wordRight]
     = [\<lparr>Words = [wordRight, wordLeft], LX = 0, LY = 0, LWidth = 150, LHeight = 35\<rparr>]
   \<and> hocr_groupWordsIntoLines insertionSort [wordRight, wordLeft]
     = [\<lparr>Words = [wordRight, wordLeft], LX = 0, LY = 0, LWidth = 150, LHeight = 35\<rparr>]"
  by (simp add: groupWordsIntoLines_def hocr_groupWordsIntoLines_def insertionSort_def wordLess_def
        wordRight_def wordLeft_def abs_int_def quo_def wordsOnSameLine_def hocr_wordsOnSameLine_def
        lineEnvelope_def lineExtent_def createLineFromWords_def growBounds_def)

text \<open>
  Claim C10. When \<^verbatim>\<open>sort.Slice\<close> permutes the slice it is given, the words of the lines
  that \<^verbatim>\<open>groupWordsIntoLines\<close> returns, taken line after line, are a permutation of the
  input, in both packages: they are the sorted sequence itself.
\<close>

theorem groupWordsIntoLines_permutation:
  assumes "mset (sortSlice wordLess ws) = mset ws"
  shows "mset (concat (map Words (groupWordsIntoLines sortSlice ws))) = mset ws
    \<and> mset (concat (map Words (hocr_groupWordsIntoLines sortSlice ws))) = mset ws
    \<and> concat (map Words (groupWordsIntoLines sortSlice ws))
        = (if ws = [] then [] else sortSlice wordLess ws)"
  using assms
  by (simp add: groupWordsIntoLines_def hocr_groupWordsIntoLines_def lineLoop_concat)

text \<open>Three words come back as a line of two and a line of one.\<close>

theorem groupWordsIntoLines_permutation_witness:
  "mset (insertionSort wordLess [wordBelow, wordLeft, wordRight]) = mset [wordBelow, wordLeft, wordRight]
   \<and> map Words (groupWordsIntoLines insertionSort [wordBelow, wordLeft, wordRight])
       = [ [wordRight, wordLeft], [wordBelow] ]
   \<and> mset (concat (map Words (groupWordsIntoLines insertionSort [wordBelow, wordLeft, wordRight])))
       = mset [wordBelow, wordLeft, wordRight]"
proof -
  have e: "map Words (groupWordsIntoLines insertionSort [wordBelow, wordLeft, wordRight])
       = [ [wordRight, wordLeft], [wordBelow] ]"
    by (simp add: groupWordsIntoLines_def insertionSort_def wordLess_def
        wordRight_def wordLeft_def wordBelow_def abs_int_def quo_def wordsOnSameLine_def
        lineEnvelope_def lineExtent_def createLineFromWords_def growBounds_def)
  from groupWordsIntoLines_permutation [of insertionSort "[wordBelow, wordLeft, wordRight]",
      OF mset_insertionSort] e mset_insertionSort [of wordLess "[wordBelow, wordLeft, wordRight]"]
  show ?thesis by simp
qed

subsection \<open>EditDistanceEngine\<close>

lemma lev_kitten: "levenshteinDistance ''kitten'' ''sitting'' = 3" by code_simp
lemma lev_flaw: "levenshteinDistance ''flaw'' ''lawn'' = 2" by code_simp
lemma lev_gumbo: "levenshteinDistance ''gumbo'' ''gambol'' = 2" by code_simp
lemma lev_abc: "levenshteinDistance ''abc'' ''yabd'' = 2" by code_simp
lemma lev_intention: "levenshteinDistance ''intention'' ''execution'' = 5" by code_simp
lemma lev_distance: "levenshteinDistance ''distance'' ''difference'' = 5" by code_simp
lemma lev_saturday: "levenshteinDistance ''Saturday'' ''Sunday'' = 3" by code_simp
lemma lev_abcdef: "levenshteinDistance ''abc'' ''abcdef'' = 3" by code_simp
lemma lev_other_test_vectors:
  "levenshteinDistance ''kitten'' ''kitten'' = 0 \<and> levenshteinDistance ''book'' ''back'' = 2
   \<and> levenshteinDistance ''a'' ''b'' = 1 \<and> levenshteinDistance ''abcdef'' ''azced'' = 3
   \<and> levenshteinDistance ''abcdef'' ''abcdeg'' = 1 \<and> levenshteinDistance ''abcdef'' ''abc'' = 3
   \<and> levenshteinDistance ''1234567890'' ''0987654321'' = 10
   \<and> levenshteinDistance ''longstringwithmanychars'' ''longstringwithanychars'' = 1"
  by code_simp

text \<open>
  Claim C5. \<^verbatim>\<open>levenshteinDistance\<close> gives the literal values of the specification, which
  are those of the test \<^verbatim>\<open>TestLevenshteinDistance\<close>, and the distance between a string and
  the empty string is the length of the string, on either side.
\<close>

theorem levenshteinDistance_vectors:
  "levenshteinDistance ''kitten'' ''sitting'' = 3
   \<and> levenshteinDistance ''flaw'' ''lawn'' = 2
   \<and> levenshteinDistance ''gumbo'' ''gambol'' = 2
   \<and> levenshteinDistance ''abc'' ''yabd'' = 2
   \<and> levenshteinDistance ''intention'' ''execution'' = 5
   \<and> levenshteinDistance ''distance'' ''difference'' = 5
   \<and> levenshteinDistance ''Saturday'' ''Sunday'' = 3
   \<and> levenshteinDistance ''abc'' ''abcdef'' = 3
   \<and> levenshteinDistance s [] = length s
   \<and> levenshteinDistance [] s = length s"
  using lev_kitten lev_flaw lev_gumbo lev_abc lev_intention lev_distance lev_saturday lev_abcdef
  by (simp add: levenshteinDistance_def distance_empty_candidate distance_empty_reference)

subsection \<open>AccuracyScorer\<close>

lemma tokenize_empty: "tokenize [] = []"
  by (simp add: tokenize_def)

lemma tokenize_a_b: "tokenize ''a b'' = [''a'', ''b'']"
  by (simp add: tokenize_def isSpace_def)

lemma tokenize_quick:
  "tokenize ''the quick  brown fox'' = [''the'', ''quick'', ''brown'', ''fox'']
   \<and> tokenize ''the quik brown'' = [''the'', ''quik'', ''brown'']"
  by code_simp

lemma align_quick:
  "snd (distance [''the'', ''quick'', ''brown'', ''fox''] [''the'', ''quik'', ''brown''])
     = \<lparr>matches = 2, substitutions = 1, deletions = 1, insertions = 0\<rparr>"
  by code_simp

text \<open>
  Claim C6. With \<open>n\<close> the number of words of the reference text and the counts of the
  word alignment, which the result carries as they are, the word accuracy is \<open>matches / max(1, n)\<close>, the word error rate is
  \<open>(substitutions + deletions + insertions) / max(1, n)\<close> and the word similarity is
  \<open>1 -\<close> word error rate, clamped to \<open>[0, 1]\<close>. The denominator is never \<open>0\<close>; for a
  reference text without words the accuracy is \<open>0\<close>, the error rate is the number of
  words of the candidate, and the similarity is \<open>1\<close> for a candidate without words and
  \<open>0\<close> otherwise. The character similarity is guarded in the same way by
  \<open>max(1, len(original))\<close>.
\<close>

theorem CalculateAccuracyMetrics_word_metrics:
  fixes original corrected :: string
  defines "m \<equiv> CalculateAccuracyMetrics original corrected"
    and "n \<equiv> length (tokenize original)"
    and "al \<equiv> snd (distance (tokenize original) (tokenize corrected))"
  shows "max 1 n \<noteq> 0 \<and> max 1 (length original) \<noteq> 0
    \<and> CorrectWords m = matches al \<and> Substitutions m = substitutions al
    \<and> Deletions m = deletions al \<and> Insertions m = insertions al
    \<and> WordAccuracy m = real (matches al) / real (max 1 n)
    \<and> WordErrorRate m = real (substitutions al + deletions al + insertions al) / real (max 1 n)
    \<and> WordSimilarity m = max 0 (min 1 (1 - WordErrorRate m))
    \<and> CharacterSimilarity m
        = max 0 (min 1 (1 - real (levenshteinDistance original corrected)
                              / real (max 1 (length original))))
    \<and> (tokenize original = [] \<longrightarrow>
         WordAccuracy m = 0 \<and> WordErrorRate m = real (length (tokenize corrected))
         \<and> WordSimilarity m = (if tokenize corrected = [] then 1 else 0))
    \<and> (original = [] \<longrightarrow> CharacterSimilarity m = (if corrected = [] then 1 else 0))"
proof -
  have e: "tokenize original = [] \<longrightarrow>
         WordAccuracy m = 0 \<and> WordErrorRate m = real (length (tokenize corrected))
         \<and> WordSimilarity m = (if tokenize corrected = [] then 1 else 0)"
    by (cases "tokenize corrected")
      (simp_all add: m_def CalculateAccuracyMetrics_def Let_def alignment_empty_reference clamp01_def)
  have d: "max 1 n \<noteq> 0 \<and> max 1 (length original) \<noteq> 0" by simp
  have c: "CorrectWords m = matches al \<and> Substitutions m = substitutions al
    \<and> Deletions m = deletions al \<and> Insertions m = insertions al"
    by (simp add: m_def al_def CalculateAccuracyMetrics_def Let_def)
  have r: "WordAccuracy m = real (matches al) / real (max 1 n)
    \<and> WordErrorRate m = real (substitutions al + deletions al + insertions al) / real (max 1 n)"
    by (simp add: m_def n_def al_def CalculateAccuracyMetrics_def Let_def)
  have s: "WordSimilarity m = max 0 (min 1 (1 - WordErrorRate m))"
    by (simp add: m_def CalculateAccuracyMetrics_def Let_def clamp01_eq)
  have k: "CharacterSimilarity m
        = max 0 (min 1 (1 - real (levenshteinDistance original corrected)
                              / real (max 1 (length original))))"
    by (simp add: m_def CalculateAccuracyMetrics_def Let_def clamp01_eq levenshteinDistance_def)
  have "original = [] \<longrightarrow>
      real (levenshteinDistance original corrected) / real (max 1 (length original))
        = real (length corrected)"
    by (simp add: levenshteinDistance_def distance_empty_reference)
  with k have z: "original = [] \<longrightarrow> CharacterSimilarity m = (if corrected = [] then 1 else 0)"
    by (cases corrected) auto
  from d c r s k e z show ?thesis by blast
qed

text \<open>An empty reference against two words, and four words against three.\<close>

theorem CalculateAccuracyMetrics_word_metrics_witness:
  "tokenize [] = []
   \<and> WordAccuracy (CalculateAccuracyMetrics [] ''a b'') = 0
   \<and> WordErrorRate (CalculateAccuracyMetrics [] ''a b'') = 2
   \<and> WordSimilarity (CalculateAccuracyMetrics [] ''a b'') = 0
   \<and> WordAccuracy (CalculateAccuracyMetrics ''the quick  brown fox'' ''the quik brown'') = 1 / 2
   \<and> WordErrorRate (CalculateAccuracyMetrics ''the quick  brown fox'' ''the quik brown'') = 1 / 2
   \<and> WordSimilarity (CalculateAccuracyMetrics ''the quick  brown fox'' ''the quik brown'') = 1 / 2"
  using CalculateAccuracyMetrics_word_metrics [of "[]" "''a b''"]
    CalculateAccuracyMetrics_word_metrics [of "''the quick  brown fox''" "''the quik brown''"]
  by (simp add: tokenize_empty tokenize_a_b tokenize_quick align_quick)

end
